theory Spec2Isabelle
  imports Main
begin

section \<open>Values of the data tree\<close>

text \<open>
  The store holds JavaScript data: the scalars, arrays and plain objects. An object is
  the list of its own properties in insertion order (\<open>map_of\<close> reads it); the
  names it inherits from its prototype are not data, and only \<open>in\<close> sees them. Numbers are
  the integers: every number the two methods look at is a timestamp in milliseconds or
  an HTTP status.
\<close>

datatype jsval =
    Undefined
  | Null
  | Bool bool
  | Num int
  | Str string
  | Arr "jsval list"
  | Obj "(string \<times> jsval) list"

text \<open>Truthiness, as \<open>!value\<close> and \<open>data && ...\<close> test it.\<close>

fun truthy :: "jsval \<Rightarrow> bool" where
  "truthy Undefined = False"
| "truthy Null = False"
| "truthy (Bool b) = b"
| "truthy (Num n) = (n \<noteq> 0)"
| "truthy (Str s) = (s \<noteq> [])"
| "truthy (Arr xs) = True"
| "truthy (Obj ps) = True"

text \<open>The package \<open>is-plain-obj\<close>: true of an object literal, false of an array
  and of every scalar.\<close>

fun isPlainObject :: "jsval \<Rightarrow> bool" where
  "isPlainObject (Obj ps) = True"
| "isPlainObject v = False"

text \<open>\<open>o[k]\<close> on the own properties of an object: a missing key reads as
  \<open>undefined\<close>.\<close>

definition field :: "(string \<times> jsval) list \<Rightarrow> string \<Rightarrow> jsval" where
  "field ps k = (case map_of ps k of Some v \<Rightarrow> v | None \<Rightarrow> Undefined)"

text \<open>An array index is a canonical decimal numeral: \<open>0\<close>, or digits that do not
  start with \<open>0\<close>.\<close>

definition is_digit :: "char \<Rightarrow> bool" where
  "is_digit c = (48 \<le> (of_char c :: nat) \<and> (of_char c :: nat) \<le> 57)"

definition array_index :: "string \<Rightarrow> nat option" where
  "array_index s =
     (if s \<noteq> [] \<and> list_all is_digit s \<and> (length s = 1 \<or> hd s \<noteq> CHR ''0'')
      then Some (foldl (\<lambda>n c. 10 * n + (of_char c - 48)) 0 s)
      else None)"

text \<open>\<open>v[k]\<close> for a value of the tree, read from its own properties: a property of
  an object, an element or the length of an array, \<open>undefined\<close> otherwise.\<close>

fun member :: "jsval \<Rightarrow> string \<Rightarrow> jsval" where
  "member (Obj ps) k = field ps k"
| "member (Arr xs) k =
     (case array_index k of
        Some i \<Rightarrow> if i < length xs then xs ! i else Undefined
      | None \<Rightarrow> if k = ''length'' then Num (int (length xs)) else Undefined)"
| "member v k = Undefined"

datatype error = TypeError | NotWritable

text \<open>
  What the two methods take from the language and its engine: the clock
  (\<open>Date.now()\<close>); the conversion of a string, an array or an object to a number
  (\<open>None\<close> is \<open>NaN\<close>); the names every object inherits from
  \<open>Object.prototype\<close> (\<open>toString\<close>, \<open>constructor\<close>, ...); and the names every
  array inherits from \<open>Array.prototype\<close> and, through it, from \<open>Object.prototype\<close>.
  They stay parameters.
\<close>

record runtime =
  now :: int
  parse_number :: "jsval \<Rightarrow> int option"
  object_proto :: "string list"
  array_proto :: "string list"

text \<open>
  The operator \<open>k in v\<close>. It raises a TypeError when its right operand is not an
  object. It is true of an inherited name as of an own property; an array has its
  indices and \<open>length\<close> of its own.
\<close>

fun js_in :: "runtime \<Rightarrow> string \<Rightarrow> jsval \<Rightarrow> error + bool" where
  "js_in rt k (Obj ps) = Inr (k \<in> set (object_proto rt) \<or> map_of ps k \<noteq> None)"
| "js_in rt k (Arr xs) =
     Inr (k \<in> set (array_proto rt)
          \<or> (case array_index k of Some i \<Rightarrow> i < length xs | None \<Rightarrow> k = ''length''))"
| "js_in rt k v = Inl TypeError"

section \<open>Key paths\<close>

text \<open>
  Modelled from the spec: the key path utility (the package \<open>@yr/keys\<close>, not among
  the sources). A path is a string of segments separated by a slash; a leading slash
  is dropped, and the empty path and \<open>/\<close> are the root.
\<close>

fun split_slash :: "string \<Rightarrow> string list" where
  "split_slash [] = [[]]"
| "split_slash (c # cs) =
     (if c = CHR ''/'' then [] # split_slash cs
      else (case split_slash cs of
              [] \<Rightarrow> [[c]]
            | w # ws \<Rightarrow> (c # w) # ws))"

definition segments :: "string \<Rightarrow> string list" where
  "segments key = filter (\<lambda>s. s \<noteq> []) (split_slash key)"

fun keys_join :: "string list \<Rightarrow> string" where
  "keys_join [] = []"
| "keys_join [s] = s"
| "keys_join (s # ss) = s @ CHR ''/'' # keys_join ss"

definition keys_length :: "string \<Rightarrow> nat" where
  "keys_length key = length (segments key)"

definition keys_last :: "string \<Rightarrow> string" where
  "keys_last key = (case segments key of [] \<Rightarrow> [] | s # ss \<Rightarrow> last (s # ss))"

text \<open>\<open>keys.slice(key, begin, end)\<close>: the segments from \<open>begin\<close> up to \<open>end\<close>,
  a negative position counting from the end, as \<open>Array.prototype.slice\<close> does.\<close>

definition slice_pos :: "nat \<Rightarrow> int \<Rightarrow> nat" where
  "slice_pos n i = (if i < 0 then nat (max 0 (int n + i)) else min n (nat i))"

definition keys_slice :: "string \<Rightarrow> int \<Rightarrow> int \<Rightarrow> string" where
  "keys_slice key b e =
     (let ss = segments key; i = slice_pos (length ss) b; j = slice_pos (length ss) e
      in keys_join (take (j - i) (drop i ss)))"

section \<open>The store\<close>

text \<open>
  The fields of a store that the two methods read: the data tree (\<open>store._data\<close>),
  the name of the expiry property (\<open>store.EXPIRES_KEY\<close>) and whether the store
  accepts writes. \<open>store.debug\<close> only logs and is left out.
\<close>

record store =
  sdata :: jsval
  EXPIRES_KEY :: string
  writeable :: bool

text \<open>
  Modelled from the spec: \<open>get\<close> (\<open>./get\<close> is not among the sources). It follows
  the segments of the path from the root; a segment that is not there reads as
  \<open>undefined\<close>. The trees of this development hold no references, so a path is its
  own canonical form and there is nothing to expand; the read cache of a store that is
  not writable is not part of the data tree and is left out.
\<close>

fun child :: "jsval \<Rightarrow> string \<Rightarrow> jsval" where
  "child (Obj ps) s = field ps s"
| "child (Arr xs) s =
     (case array_index s of
        Some i \<Rightarrow> if i < length xs then xs ! i else Undefined
      | None \<Rightarrow> Undefined)"
| "child v s = Undefined"

fun walk :: "jsval \<Rightarrow> string list \<Rightarrow> jsval" where
  "walk v [] = v"
| "walk v (s # ss) = walk (child v s) ss"

definition get :: "store \<Rightarrow> string \<Rightarrow> jsval" where
  "get store key = walk (sdata store) (segments key)"

text \<open>
  Modelled from the spec: \<open>set\<close> (\<open>./set\<close> is not among the sources). It does
  nothing for an empty path, throws when the store is not writable, and otherwise writes
  the value at the path, creating the mappings on the way that are not there. Writing
  \<open>undefined\<close> keeps the key, with the value \<open>undefined\<close>. An array is written at
  an index (and grows to reach it); a segment of an array that is no index names no
  location of the data model, and the array is left as it is.
\<close>

fun upsert :: "(string \<times> jsval) list \<Rightarrow> string \<Rightarrow> jsval \<Rightarrow> (string \<times> jsval) list" where
  "upsert [] k v = [(k, v)]"
| "upsert (p # ps) k v = (if fst p = k then (k, v) # ps else p # upsert ps k v)"

fun put :: "jsval \<Rightarrow> string list \<Rightarrow> jsval \<Rightarrow> jsval" where
  "put t [] v = v"
| "put (Obj ps) (s # ss) v = Obj (upsert ps s (put (field ps s) ss v))"
| "put (Arr xs) (s # ss) v =
     (case array_index s of
        Some i \<Rightarrow>
          Arr ((xs @ replicate (Suc i - length xs) Undefined)
                 [i := put (child (Arr xs) s) ss v])
      | None \<Rightarrow> Arr xs)"
| "put t (s # ss) v = Obj [(s, put Undefined ss v)]"

definition set_key :: "store \<Rightarrow> string \<Rightarrow> jsval \<Rightarrow> error + store" where
  "set_key store key v =
     (if segments key = [] then Inr store
      else if \<not> writeable store then Inl NotWritable
      else Inr (store\<lparr>sdata := put (sdata store) (segments key) v\<rparr>))"

section \<open>remove\<close>

text \<open>
  \<open>src/lib/methods/remove.js\<close>. The terminal key \<open>k\<close> is the path itself when it
  has one segment and its last segment otherwise; \<open>data\<close> is the root, or what
  \<open>get\<close> finds at the path without its last segment. When \<open>data\<close> is truthy and
  has \<open>k\<close>, the method calls \<open>set(store, k, undefined)\<close>: with \<open>k\<close>, not with
  the path.
\<close>

definition remove :: "runtime \<Rightarrow> store \<Rightarrow> string \<Rightarrow> error + store" where
  "remove rt store key =
     (let len = keys_length key;
          k = (if len = 1 then key else keys_last key);
          data = (if len = 1 then sdata store else get store (keys_slice key 0 (- 1)))
      in if truthy data then
           (case js_in rt k data of
              Inl e \<Rightarrow> Inl e
            | Inr True \<Rightarrow> set_key store k Undefined
            | Inr False \<Rightarrow> Inr store)
         else Inr store)"

section \<open>fetch\<close>

text \<open>
  The conversion to a number that a comparison with a number applies to its other
  operand. The conversion of \<open>undefined\<close>, \<open>null\<close>, a boolean and a number is
  written out; the one of a string, an array or an object is the parameter
  \<open>parse_number\<close>.
\<close>

fun ToNumber :: "runtime \<Rightarrow> jsval \<Rightarrow> int option" where
  "ToNumber rt Undefined = None"
| "ToNumber rt Null = Some 0"
| "ToNumber rt (Bool b) = Some (if b then 1 else 0)"
| "ToNumber rt (Num n) = Some n"
| "ToNumber rt v = parse_number rt v"

text \<open>\<open>a > b\<close> and \<open>a >= b\<close> with a number on one side: false when the other
  side converts to \<open>NaN\<close>.\<close>

definition num_gt :: "runtime \<Rightarrow> int \<Rightarrow> jsval \<Rightarrow> bool" where
  "num_gt rt a v = (case ToNumber rt v of Some b \<Rightarrow> a > b | None \<Rightarrow> False)"

definition ge_num :: "runtime \<Rightarrow> jsval \<Rightarrow> int \<Rightarrow> bool" where
  "ge_num rt v b = (case ToNumber rt v of Some a \<Rightarrow> a \<ge> b | None \<Rightarrow> False)"

text \<open>
  \<open>hasExpired(obj, expiresKey)\<close>: the value is truthy, a plain object, has the
  expiry property, and the clock is strictly past it. \<open>isPlainObject\<close> stands before
  \<open>in\<close>, so \<open>in\<close> never meets a scalar here. Where the name is only inherited,
  \<open>obj[expiresKey]\<close> is a function or the prototype, which converts to \<open>NaN\<close> as
  the \<open>undefined\<close> that \<open>member\<close> reads does: the comparison is false either way.
\<close>

definition hasExpired :: "runtime \<Rightarrow> jsval \<Rightarrow> string \<Rightarrow> bool" where
  "hasExpired rt obj expiresKey =
     (truthy obj
      \<and> isPlainObject obj
      \<and> js_in rt expiresKey obj = Inr True
      \<and> num_gt rt (now rt) (member obj expiresKey))"

text \<open>The options \<open>fetch\<close> reads, by their truthiness, and \<open>rejectOnError\<close>,
  which a caller may pass and which \<open>fetch\<close> hands on to \<open>load\<close> with the rest.\<close>

record options =
  reload :: bool
  staleWhileRevalidate :: bool
  staleIfError :: bool
  rejectOnError :: bool

text \<open>
  \<open>./load\<close> and \<open>./reload\<close> are not among the sources. A call of either is an
  event of the run. \<open>load\<close> is the only way from \<open>fetch\<close> to the transport; what
  becomes of its promise is a parameter of \<open>fetch\<close>: it is fulfilled with a response
  object, the store then being as \<open>load\<close> left it, or it is rejected with an error
  object, or (a load that was aborted) it never settles. \<open>load\<close> is taken to return
  its promise: a \<open>load\<close> that throws instead is not among the outcomes.
\<close>

datatype call =
    Load string string options
  | Reload string string options

datatype load_outcome =
    Fulfilled store "(string \<times> jsval) list"
  | Failed "(string \<times> jsval) list"
  | Never

datatype promise = Pending | Resolved jsval | Rejected jsval

text \<open>
  A run of \<open>fetch\<close>: the calls it makes before it returns, in order; the state of the
  promise it returns, at that moment; the calls made by the callbacks on the load's
  promise when the load settles; and the state of the returned promise from then on.
\<close>

record fetch_run =
  calls :: "call list"
  returned :: promise
  settle_calls :: "call list"
  settled :: promise

text \<open>The callback of \<open>.then\<close> (lines 36 to 44) and the one of \<open>.catch\<close>
  (lines 45 to 54): the calls each makes and the response it resolves with.\<close>

definition on_fulfilled ::
  "store \<Rightarrow> string \<Rightarrow> string \<Rightarrow> options \<Rightarrow> (string \<times> jsval) list \<Rightarrow> call list \<times> jsval" where
  "on_fulfilled store' key url options res =
     ((if reload options then [Reload key url options] else []),
      Obj [(''duration'', field res ''duration''),
           (''headers'', field res ''headers''),
           (''data'', get store' key)])"

definition on_rejected ::
  "runtime \<Rightarrow> jsval \<Rightarrow> string \<Rightarrow> string \<Rightarrow> options \<Rightarrow> (string \<times> jsval) list \<Rightarrow> call list \<times> jsval" where
  "on_rejected rt val key url options err =
     ((if ge_num rt (field err ''status'') 500 \<and> reload options
       then [Reload key url options] else []),
      Obj [(''duration'', Num 0),
           (''error'', Obj err),
           (''headers'', Obj [(''status'', field err ''status'')]),
           (''data'', if staleIfError options then val else Null)])"

text \<open>\<open>promiseToLoad\<close>: both callbacks call \<open>resolve\<close>, and nothing calls
  \<open>reject\<close>.\<close>

definition promiseToLoad ::
  "runtime \<Rightarrow> jsval \<Rightarrow> string \<Rightarrow> string \<Rightarrow> options \<Rightarrow> load_outcome \<Rightarrow> call list \<times> promise" where
  "promiseToLoad rt val key url options outcome =
     (case outcome of
        Fulfilled store' res \<Rightarrow>
          (let (cs, r) = on_fulfilled store' key url options res in (cs, Resolved r))
      | Failed err \<Rightarrow>
          (let (cs, r) = on_rejected rt val key url options err in (cs, Resolved r))
      | Never \<Rightarrow> ([], Pending))"

text \<open>The response of the last statement (lines 64 to 68).\<close>

definition stored_response :: "jsval \<Rightarrow> jsval" where
  "stored_response val =
     Obj [(''duration'', Num 0),
          (''headers'', Obj [(''status'', Num 200)]),
          (''data'', val)]"

text \<open>\<open>src/lib/methods/fetch.js\<close>, lines 24 to 69.\<close>

definition fetch ::
  "runtime \<Rightarrow> (store \<Rightarrow> string \<Rightarrow> string \<Rightarrow> options \<Rightarrow> load_outcome)
     \<Rightarrow> store \<Rightarrow> string \<Rightarrow> string \<Rightarrow> options \<Rightarrow> fetch_run" where
  "fetch rt load store key url options =
     (let shouldReload = reload options;
          val = get store key;
          isMissingOrExpired = (\<not> truthy val \<or> hasExpired rt val (EXPIRES_KEY store))
      in if isMissingOrExpired then
           (let (later, outcome) =
                  promiseToLoad rt val key url options (load store key url options)
            in if \<not> (truthy val \<and> staleWhileRevalidate options) then
                 \<lparr>calls = [Load key url options], returned = Pending,
                  settle_calls = later, settled = outcome\<rparr>
               else
                 \<lparr>calls = Load key url options
                            # (if shouldReload then [Reload key url options] else []),
                  returned = Resolved (stored_response val),
                  settle_calls = later, settled = Resolved (stored_response val)\<rparr>)
         else
           \<lparr>calls = (if shouldReload then [Reload key url options] else []),
            returned = Resolved (stored_response val),
            settle_calls = [], settled = Resolved (stored_response val)\<rparr>)"

text \<open>The words of the claims about a run.\<close>

definition is_reload :: "call \<Rightarrow> bool" where
  "is_reload c = (case c of Reload k u opts \<Rightarrow> True | Load k u opts \<Rightarrow> False)"

definition is_load :: "call \<Rightarrow> bool" where
  "is_load c = (case c of Load k u opts \<Rightarrow> True | Reload k u opts \<Rightarrow> False)"

definition all_calls :: "fetch_run \<Rightarrow> call list" where
  "all_calls r = calls r @ settle_calls r"

text \<open>The expiry entry of a stored value: the property named by \<open>EXPIRES_KEY\<close> of
  an object, nothing for any other value.\<close>

fun expiry :: "string \<Rightarrow> jsval \<Rightarrow> jsval option" where
  "expiry ek (Obj ps) = map_of ps ek"
| "expiry ek v = None"

section \<open>Sample data\<close>

text \<open>
  A clock at 1000 in an engine with the inherited names of ECMAScript 2016, a store
  whose entries \<open>foo\<close>, \<open>due\<close> and \<open>boo\<close> expire before, at and after that
  time, and loads that fail with a given status or succeed.
\<close>

definition object_names :: "string list" where
  "object_names =
     [''constructor'', ''hasOwnProperty'', ''isPrototypeOf'', ''propertyIsEnumerable'',
      ''toLocaleString'', ''toString'', ''valueOf'', ''__proto__'', ''__defineGetter__'',
      ''__defineSetter__'', ''__lookupGetter__'', ''__lookupSetter__'']"

definition array_names :: "string list" where
  "array_names =
     [''concat'', ''copyWithin'', ''entries'', ''every'', ''fill'', ''filter'', ''find'',
      ''findIndex'', ''forEach'', ''includes'', ''indexOf'', ''join'', ''keys'',
      ''lastIndexOf'', ''map'', ''pop'', ''push'', ''reduce'', ''reduceRight'', ''reverse'',
      ''shift'', ''slice'', ''some'', ''sort'', ''splice'', ''unshift'', ''values'']"

definition demo_rt :: runtime where
  "demo_rt =
     \<lparr>now = 1000, parse_number = (\<lambda>v. None),
      object_proto = object_names, array_proto = array_names @ object_names\<rparr>"

definition demo_store :: store where
  "demo_store =
     \<lparr>sdata = Obj [(''bar'', Str ''bat''),
                   (''foo'', Obj [(''bar'', Str ''boo''), (''__expires'', Num 400)]),
                   (''boo'', Obj [(''bar'', Str ''foo''), (''__expires'', Num 2000)]),
                   (''due'', Obj [(''bar'', Str ''now''), (''__expires'', Num 1000)]),
                   (''bat'', Arr [Str ''foo'', Str ''bar''])],
      EXPIRES_KEY = ''__expires'', writeable = True\<rparr>"

definition demo_options :: "bool \<Rightarrow> bool \<Rightarrow> bool \<Rightarrow> bool \<Rightarrow> options" where
  "demo_options r swr sie roe =
     \<lparr>reload = r, staleWhileRevalidate = swr, staleIfError = sie, rejectOnError = roe\<rparr>"

definition load_fails ::
  "int \<Rightarrow> store \<Rightarrow> string \<Rightarrow> string \<Rightarrow> options \<Rightarrow> load_outcome" where
  "load_fails status store key url options = Failed [(''status'', Num status)]"

definition load_succeeds ::
  "store \<Rightarrow> string \<Rightarrow> string \<Rightarrow> options \<Rightarrow> load_outcome" where
  "load_succeeds store key url options =
     Fulfilled (store\<lparr>sdata := put (sdata store) (segments key) (Obj [(''bar'', Str ''new'')])\<rparr>)
       [(''duration'', Num 12), (''headers'', Obj [(''status'', Num 200)])]"

definition nested_store :: store where
  "nested_store =
     \<lparr>sdata = Obj [(''bar'', Str ''bat''), (''foo'', Obj [(''bar'', Str ''boo'')])],
      EXPIRES_KEY = ''__expires'', writeable = True\<rparr>"

definition falsy_store :: store where
  "falsy_store =
     \<lparr>sdata = Obj [(''zero'', Num 0), (''flag'', Bool False)],
      EXPIRES_KEY = ''__expires'', writeable = True\<rparr>"

section \<open>Facts about the definitions\<close>

lemma expiry_truthy: "expiry ek v = Some x \<Longrightarrow> truthy v"
  by (cases v) simp_all

lemma hasExpired_Num: "expiry ek v = Some (Num e) \<Longrightarrow> hasExpired rt v ek = (e < now rt)"
  by (cases v) (simp_all add: hasExpired_def num_gt_def field_def)

lemma hasExpired_no_expiry: "expiry ek v = None \<Longrightarrow> \<not> hasExpired rt v ek"
  by (cases v) (simp_all add: hasExpired_def num_gt_def field_def)

lemma ge_num_Num: "ge_num rt (Num s) b = (b \<le> s)"
  by (simp add: ge_num_def)

text \<open>The three ways through \<open>fetch\<close>.\<close>

lemma fetch_fresh_run:
  assumes "truthy (get store key)"
      and "\<not> hasExpired rt (get store key) (EXPIRES_KEY store)"
  shows "fetch rt load store key url options =
           \<lparr>calls = (if reload options then [Reload key url options] else []),
            returned = Resolved (stored_response (get store key)),
            settle_calls = [],
            settled = Resolved (stored_response (get store key))\<rparr>"
  using assms by (simp add: fetch_def Let_def)

lemma fetch_waiting_run:
  assumes "\<not> truthy (get store key) \<or> hasExpired rt (get store key) (EXPIRES_KEY store)"
      and "\<not> (truthy (get store key) \<and> staleWhileRevalidate options)"
  shows "fetch rt load store key url options =
           \<lparr>calls = [Load key url options],
            returned = Pending,
            settle_calls =
              fst (promiseToLoad rt (get store key) key url options (load store key url options)),
            settled =
              snd (promiseToLoad rt (get store key) key url options (load store key url options))\<rparr>"
  using assms by (auto simp add: fetch_def Let_def split: prod.splits)

lemma fetch_revalidating_run:
  assumes "truthy (get store key)"
      and "hasExpired rt (get store key) (EXPIRES_KEY store)"
      and "staleWhileRevalidate options"
  shows "fetch rt load store key url options =
           \<lparr>calls = Load key url options
                      # (if reload options then [Reload key url options] else []),
            returned = Resolved (stored_response (get store key)),
            settle_calls =
              fst (promiseToLoad rt (get store key) key url options (load store key url options)),
            settled = Resolved (stored_response (get store key))\<rparr>"
  using assms by (auto simp add: fetch_def Let_def split: prod.splits)

lemma promiseToLoad_Fulfilled:
  "promiseToLoad rt val key url options (Fulfilled store' res) =
     ((if reload options then [Reload key url options] else []),
      Resolved (Obj [(''duration'', field res ''duration''),
                     (''headers'', field res ''headers''),
                     (''data'', get store' key)]))"
  by (simp add: promiseToLoad_def on_fulfilled_def)

lemma promiseToLoad_Failed:
  "promiseToLoad rt val key url options (Failed err) =
     ((if ge_num rt (field err ''status'') 500 \<and> reload options
       then [Reload key url options] else []),
      Resolved (Obj [(''duration'', Num 0),
                     (''error'', Obj err),
                     (''headers'', Obj [(''status'', field err ''status'')]),
                     (''data'', if staleIfError options then val else Null)]))"
  by (simp add: promiseToLoad_def on_rejected_def)

lemma promiseToLoad_Never:
  "promiseToLoad rt val key url options Never = ([], Pending)"
  by (simp add: promiseToLoad_def)

lemmas promiseToLoad_simps =
  promiseToLoad_Fulfilled promiseToLoad_Failed promiseToLoad_Never

text \<open>The callbacks of the load only ever call \<open>reload\<close>.\<close>

lemma promiseToLoad_no_load:
  "filter is_load (fst (promiseToLoad rt val key url options outcome)) = []"
  by (cases outcome) (simp_all add: promiseToLoad_simps is_load_def)

text \<open>Whatever becomes of the promise of \<open>load\<close>, the promise \<open>fetch\<close>
  returns is not rejected.\<close>

lemma fetch_never_rejects:
  "returned (fetch rt load store key url options) \<noteq> Rejected e
   \<and> settled (fetch rt load store key url options) \<noteq> Rejected e"
proof (cases "truthy (get store key) \<and> \<not> hasExpired rt (get store key) (EXPIRES_KEY store)")
  case True
  then show ?thesis by (simp add: fetch_fresh_run)
next
  case stale: False
  show ?thesis
  proof (cases "truthy (get store key) \<and> staleWhileRevalidate options")
    case True
    with stale show ?thesis by (simp add: fetch_revalidating_run)
  next
    case False
    with stale have run: "fetch rt load store key url options =
           \<lparr>calls = [Load key url options],
            returned = Pending,
            settle_calls =
              fst (promiseToLoad rt (get store key) key url options (load store key url options)),
            settled =
              snd (promiseToLoad rt (get store key) key url options (load store key url options))\<rparr>"
      by (intro fetch_waiting_run) auto
    show ?thesis
      unfolding run
      by (cases "load store key url options") (simp_all add: promiseToLoad_simps)
  qed
qed

text \<open>The sample store, read.\<close>

lemma get_demo_foo:
  "get demo_store ''foo'' = Obj [(''bar'', Str ''boo''), (''__expires'', Num 400)]"
  by (simp add: demo_store_def get_def segments_def field_def)

lemma get_demo_due:
  "get demo_store ''due'' = Obj [(''bar'', Str ''now''), (''__expires'', Num 1000)]"
  by (simp add: demo_store_def get_def segments_def field_def)

lemma get_demo_boo:
  "get demo_store ''boo'' = Obj [(''bar'', Str ''foo''), (''__expires'', Num 2000)]"
  by (simp add: demo_store_def get_def segments_def field_def)

lemma get_demo_nope: "get demo_store ''nope'' = Undefined"
  by (simp add: demo_store_def get_def segments_def field_def)

lemma demo_expires_key: "EXPIRES_KEY demo_store = ''__expires''"
  by (simp add: demo_store_def)

lemma demo_now: "now demo_rt = 1000"
  by (simp add: demo_rt_def)

lemma hasExpired_demo_foo: "hasExpired demo_rt (get demo_store ''foo'') (EXPIRES_KEY demo_store)"
  by (simp add: get_demo_foo demo_expires_key demo_now hasExpired_def num_gt_def field_def)

lemma keys_demo:
  "keys_length ''zip/x'' = 2" "keys_last ''zip/x'' = ''x''"
  "keys_slice ''zip/x'' 0 (- 1) = ''zip''"
  "keys_length ''foo/x'' = 2" "keys_last ''foo/x'' = ''x''"
  "keys_slice ''foo/x'' 0 (- 1) = ''foo''"
  "keys_length ''foo/bar'' = 2" "keys_last ''foo/bar'' = ''bar''"
  "keys_slice ''foo/bar'' 0 (- 1) = ''foo''"
  "keys_length ''bar/x'' = 2" "keys_last ''bar/x'' = ''x''"
  "keys_slice ''bar/x'' 0 (- 1) = ''bar''"
  "keys_length ''zip'' = 1" "keys_length ''bar'' = 1" "keys_length ''toString'' = 1"
  by (simp_all add: keys_length_def keys_last_def keys_slice_def slice_pos_def segments_def)

lemma demo_object_proto: "object_proto demo_rt = object_names"
  by (simp add: demo_rt_def)

text \<open>What \<open>remove\<close> does when \<open>in\<close> finds the terminal key: for a path of one
  segment it is \<open>set\<close> at that path; for a longer path it is \<open>set\<close> at the last
  segment alone.\<close>

lemma remove_single_segment:
  assumes "keys_length key = 1" and "js_in rt key (sdata store) = Inr True"
  shows "remove rt store key = set_key store key Undefined"
proof -
  have "truthy (sdata store)"
    using assms(2) by (cases "sdata store") simp_all
  with assms show ?thesis
    by (simp add: remove_def Let_def)
qed

lemma remove_nested:
  assumes "keys_length key \<noteq> 1"
      and "js_in rt (keys_last key) (get store (keys_slice key 0 (- 1))) = Inr True"
  shows "remove rt store key = set_key store (keys_last key) Undefined"
proof -
  have "truthy (get store (keys_slice key 0 (- 1)))"
    using assms(2) by (cases "get store (keys_slice key 0 (- 1))") simp_all
  with assms show ?thesis
    by (simp add: remove_def Let_def)
qed

text \<open>
  What \<open>remove\<close> does when the guard is false: \<open>data\<close> is the parent as the
  method reads it and \<open>k\<close> the terminal key; the parent is falsy, or it is an object
  or an array and \<open>k in data\<close> is false. Then nothing is raised and the store is as it
  was.
\<close>

lemma remove_guard_false_is_noop:
  assumes "data = (if keys_length key = 1 then sdata store
                   else get store (keys_slice key 0 (- 1)))"
      and "k = (if keys_length key = 1 then key else keys_last key)"
      and "\<not> truthy data \<or> js_in rt k data = Inr False"
  shows "remove rt store key = Inr store"
  using assms by (auto simp add: remove_def Let_def)

text \<open>The loads and the reloads of a run.\<close>

lemma promiseToLoad_reloads:
  "filter is_reload (fst (promiseToLoad rt val key url options outcome)) =
     (if reload options
         \<and> (case outcome of
                Fulfilled store' res \<Rightarrow> True
              | Failed err \<Rightarrow> ge_num rt (field err ''status'') 500
              | Never \<Rightarrow> False)
      then [Reload key url options] else [])"
  by (cases outcome) (simp_all add: promiseToLoad_simps is_reload_def)

lemma load_calls_of_fetch:
  "filter is_load (all_calls (fetch rt load store key url options)) =
     (if \<not> truthy (get store key) \<or> hasExpired rt (get store key) (EXPIRES_KEY store)
      then [Load key url options] else [])"
proof (cases "truthy (get store key) \<and> \<not> hasExpired rt (get store key) (EXPIRES_KEY store)")
  case True
  then show ?thesis
    by (simp add: fetch_fresh_run all_calls_def is_load_def)
next
  case stale: False
  show ?thesis
  proof (cases "truthy (get store key) \<and> staleWhileRevalidate options")
    case True
    with stale show ?thesis
      by (simp add: fetch_revalidating_run all_calls_def promiseToLoad_no_load is_load_def)
  next
    case False
    with stale have "fetch rt load store key url options =
           \<lparr>calls = [Load key url options],
            returned = Pending,
            settle_calls =
              fst (promiseToLoad rt (get store key) key url options (load store key url options)),
            settled =
              snd (promiseToLoad rt (get store key) key url options (load store key url options))\<rparr>"
      by (intro fetch_waiting_run) auto
    with stale show ?thesis
      by (auto simp add: all_calls_def promiseToLoad_no_load is_load_def)
  qed
qed

section \<open>The claims about remove\<close>

text \<open>
  Claim C1: for every path whose parent object contains the terminal key,
  \<open>remove(path)\<close> is \<open>set(path, undefined)\<close>; afterwards \<open>get(path)\<close> is
  \<open>undefined\<close>. The method passes the last segment to \<open>set\<close>, so this holds for a
  path of one segment (\<open>remove_single_segment\<close>) and not for a longer one. In the
  store \<open>{ bar: 'bat', foo: { bar: 'boo' } }\<close> the parent \<open>foo\<close> contains
  \<open>bar\<close>; \<open>remove('foo/bar')\<close> overwrites the top-level \<open>bar\<close> and leaves
  \<open>foo/bar\<close> as it was, where \<open>set('foo/bar', undefined)\<close> would have written
  \<open>foo/bar\<close>.
\<close>

theorem remove_nested_path_writes_root:
  "js_in demo_rt ''bar'' (get nested_store ''foo'') = Inr True
   \<and> remove demo_rt nested_store ''foo/bar'' =
       Inr (nested_store\<lparr>sdata :=
              Obj [(''bar'', Undefined), (''foo'', Obj [(''bar'', Str ''boo'')])]\<rparr>)
   \<and> get (nested_store\<lparr>sdata :=
              Obj [(''bar'', Undefined), (''foo'', Obj [(''bar'', Str ''boo'')])]\<rparr>)
         ''foo/bar'' = Str ''boo''
   \<and> set_key nested_store ''foo/bar'' Undefined =
       Inr (nested_store\<lparr>sdata :=
              Obj [(''bar'', Str ''bat''), (''foo'', Obj [(''bar'', Undefined)])]\<rparr>)"
  by (simp add: keys_demo remove_def Let_def nested_store_def get_def set_key_def
        segments_def field_def)

text \<open>
  Claim C8: for every path whose parent object does not contain the terminal key, the
  parent being absent included, \<open>remove(path)\<close> raises no error and leaves the data
  tree as it is. The guard \<open>data && k in data\<close> does this when it comes out false
  (\<open>remove_guard_false_is_noop\<close>), and misses two cases. In the store
  \<open>{ bar: 'bat', foo: { bar: 'boo' } }\<close> nothing is at \<open>bar/x\<close>, the parent
  \<open>bar\<close> is a string, and \<open>in\<close> raises a TypeError; nothing is at
  \<open>toString\<close>, \<open>in\<close> finds the inherited name, and \<open>set\<close> hangs a property
  \<open>toString: undefined\<close> on the root.
\<close>

theorem remove_absent_key_raises_or_writes:
  "get nested_store ''bar/x'' = Undefined
   \<and> remove demo_rt nested_store ''bar/x'' = Inl TypeError
   \<and> get nested_store ''toString'' = Undefined
   \<and> remove demo_rt nested_store ''toString'' =
       Inr (nested_store\<lparr>sdata :=
              Obj [(''bar'', Str ''bat''), (''foo'', Obj [(''bar'', Str ''boo'')]),
                   (''toString'', Undefined)]\<rparr>)"
  by (simp add: keys_demo remove_def Let_def nested_store_def get_def set_key_def
        segments_def field_def demo_rt_def object_names_def)

section \<open>The claims about fetch\<close>

text \<open>
  Claim C2: a fetch with a missing key or a missing url resolves at once with a
  response of status 400 that carries no data, and the transport is not invoked.
  \<open>fetch\<close> never looks at \<open>url\<close> before it hands it to \<open>load\<close>, and hands
  \<open>key\<close> to \<open>get\<close> as it is: with nothing stored at the key, a missing url (the
  empty string here) is loaded like any other.
\<close>

theorem fetch_missing_url_loads:
  assumes "\<not> truthy (get store key)"
  shows "calls (fetch rt load store key '''' options) = [Load key '''' options]
         \<and> returned (fetch rt load store key '''' options) = Pending"
proof -
  have a: "\<not> truthy (get store key) \<or> hasExpired rt (get store key) (EXPIRES_KEY store)"
    using assms by simp
  have b: "\<not> (truthy (get store key) \<and> staleWhileRevalidate options)"
    using assms by simp
  show ?thesis
    by (simp add: fetch_waiting_run [OF a b])
qed

theorem fetch_missing_url_loads_witness:
  "calls (fetch demo_rt (load_fails 500) demo_store ''nope'' ''''
       (demo_options False False False False)) =
     [Load ''nope'' '''' (demo_options False False False False)]
   \<and> returned (fetch demo_rt (load_fails 500) demo_store ''nope'' ''''
       (demo_options False False False False)) = Pending"
proof -
  have a: "\<not> truthy (get demo_store ''nope'')"
    by (simp add: get_demo_nope)
  show ?thesis
    using fetch_missing_url_loads [OF a, of demo_rt "load_fails 500"
            "demo_options False False False False"]
    by simp
qed

text \<open>A missing key (the empty string) reads the whole tree, which is fresh: the promise
  resolves with status 200 and the tree as its data.\<close>

lemma fetch_missing_key_answers_root:
  "returned (fetch demo_rt (load_fails 500) demo_store '''' ''/bar''
       (demo_options False False False False)) =
     Resolved (Obj [(''duration'', Num 0),
                    (''headers'', Obj [(''status'', Num 200)]),
                    (''data'', sdata demo_store)])"
proof -
  have g: "get demo_store '''' = sdata demo_store"
    by (simp add: get_def segments_def)
  have t: "truthy (get demo_store '''')"
    by (simp add: g) (simp add: demo_store_def)
  have f: "\<not> hasExpired demo_rt (get demo_store '''') (EXPIRES_KEY demo_store)"
    by (simp add: g demo_expires_key)
       (simp add: demo_store_def hasExpired_def num_gt_def field_def)
  show ?thesis
    by (simp add: fetch_fresh_run [OF t f] stored_response_def g)
qed

text \<open>
  Claim C3, as the code has it: a stored value whose expiry is the number \<open>e\<close> is
  stale, and \<open>fetch\<close> issues a load, exactly when \<open>e\<close> is strictly before the
  current time. \<open>hasExpired\<close> compares with \<open>Date.now() > obj[expiresKey]\<close>, so a
  value whose expiry equals the current time is still fresh.
\<close>

theorem fetch_loads_iff_strictly_past_expiry:
  assumes "expiry (EXPIRES_KEY store) (get store key) = Some (Num e)"
  shows "hasExpired rt (get store key) (EXPIRES_KEY store) = (e < now rt)
         \<and> filter is_load (all_calls (fetch rt load store key url options)) =
             (if e < now rt then [Load key url options] else [])"
  using assms expiry_truthy [OF assms]
  by (simp add: load_calls_of_fetch hasExpired_Num)

theorem fetch_loads_iff_strictly_past_expiry_witness:
  "filter is_load (all_calls (fetch demo_rt (load_fails 500) demo_store ''foo'' ''/foo''
       (demo_options False False False False))) =
     [Load ''foo'' ''/foo'' (demo_options False False False False)]
   \<and> filter is_load (all_calls (fetch demo_rt (load_fails 500) demo_store ''boo'' ''/boo''
       (demo_options False False False False))) = []"
proof -
  have a: "expiry (EXPIRES_KEY demo_store) (get demo_store ''foo'') = Some (Num 400)"
    by (simp add: get_demo_foo demo_expires_key)
  have b: "expiry (EXPIRES_KEY demo_store) (get demo_store ''boo'') = Some (Num 2000)"
    by (simp add: get_demo_boo demo_expires_key)
  show ?thesis
    using fetch_loads_iff_strictly_past_expiry [OF a, of demo_rt "load_fails 500" "''/foo''"
            "demo_options False False False False"]
          fetch_loads_iff_strictly_past_expiry [OF b, of demo_rt "load_fails 500" "''/boo''"
            "demo_options False False False False"]
    by (simp add: demo_now)
qed

text \<open>
  Against claim C3 as stated (an expiry equal to the current time is stale and is
  loaded): the entry \<open>due\<close> expires at 1000, the clock reads 1000, and \<open>fetch\<close>
  makes no call at all and resolves with the stored value.
\<close>

theorem fetch_expiry_equal_now_counterexample:
  "expiry (EXPIRES_KEY demo_store) (get demo_store ''due'') = Some (Num 1000)
   \<and> now demo_rt = 1000
   \<and> \<not> hasExpired demo_rt (get demo_store ''due'') (EXPIRES_KEY demo_store)
   \<and> all_calls (fetch demo_rt (load_fails 500) demo_store ''due'' ''/due''
        (demo_options False False False False)) = []
   \<and> returned (fetch demo_rt (load_fails 500) demo_store ''due'' ''/due''
        (demo_options False False False False)) =
       Resolved (Obj [(''duration'', Num 0),
                      (''headers'', Obj [(''status'', Num 200)]),
                      (''data'', Obj [(''bar'', Str ''now''), (''__expires'', Num 1000)])])"
proof -
  have e: "expiry (EXPIRES_KEY demo_store) (get demo_store ''due'') = Some (Num 1000)"
    by (simp add: get_demo_due demo_expires_key)
  have fresh: "\<not> hasExpired demo_rt (get demo_store ''due'') (EXPIRES_KEY demo_store)"
    by (simp add: hasExpired_Num [OF e] demo_now)
  have t: "truthy (get demo_store ''due'')"
    by (simp add: get_demo_due)
  show ?thesis
    using e fresh
    by (simp add: fetch_fresh_run [OF t fresh] demo_now all_calls_def demo_options_def
          stored_response_def get_demo_due)
qed

text \<open>
  Claim C4: when the load fails, the promise rejects if and only if
  \<open>rejectOnError\<close> is true, and otherwise resolves with
  \<open>{ duration: 0, error, headers: { status }, data }\<close>. \<open>fetch\<close> does not read
  \<open>rejectOnError\<close>, and the callback of \<open>.catch\<close> calls \<open>resolve\<close>: when the
  load is made and fails, and the call waits for it, the promise resolves with that
  response for every value of \<open>rejectOnError\<close>, so also when it is true.
\<close>

theorem fetch_failed_load_resolves:
  assumes "\<not> truthy (get store key) \<or> hasExpired rt (get store key) (EXPIRES_KEY store)"
      and "\<not> (truthy (get store key) \<and> staleWhileRevalidate options)"
      and "load store key url options = Failed err"
  shows "returned (fetch rt load store key url options) = Pending
         \<and> settled (fetch rt load store key url options) =
             Resolved (Obj [(''duration'', Num 0),
                            (''error'', Obj err),
                            (''headers'', Obj [(''status'', field err ''status'')]),
                            (''data'', if staleIfError options then get store key else Null)])"
  using assms(3) by (simp add: fetch_waiting_run [OF assms(1,2)] promiseToLoad_Failed)

theorem fetch_failed_load_resolves_witness:
  "rejectOnError (demo_options False False True True)
   \<and> settled (fetch demo_rt (load_fails 500) demo_store ''foo'' ''/foo''
       (demo_options False False True True)) =
     Resolved (Obj [(''duration'', Num 0),
                    (''error'', Obj [(''status'', Num 500)]),
                    (''headers'', Obj [(''status'', Num 500)]),
                    (''data'', Obj [(''bar'', Str ''boo''), (''__expires'', Num 400)])])
   \<and> settled (fetch demo_rt (load_fails 500) demo_store ''foo'' ''/foo''
       (demo_options False False False True)) =
     Resolved (Obj [(''duration'', Num 0),
                    (''error'', Obj [(''status'', Num 500)]),
                    (''headers'', Obj [(''status'', Num 500)]),
                    (''data'', Null)])"
proof -
  have a: "\<not> truthy (get demo_store ''foo'')
           \<or> hasExpired demo_rt (get demo_store ''foo'') (EXPIRES_KEY demo_store)"
    by (simp add: hasExpired_demo_foo)
  have b: "\<not> (truthy (get demo_store ''foo'')
               \<and> staleWhileRevalidate (demo_options False False sie True))" for sie
    by (simp add: demo_options_def)
  have c: "load_fails 500 demo_store ''foo'' ''/foo'' (demo_options False False sie True)
             = Failed [(''status'', Num 500)]" for sie
    by (simp add: load_fails_def)
  show ?thesis
    using fetch_failed_load_resolves [where store = demo_store and key = "''foo''"
            and rt = demo_rt and load = "load_fails 500" and url = "''/foo''"
            and options = "demo_options False False True True"
            and err = "[(''status'', Num 500)]", OF a b c]
          fetch_failed_load_resolves [where store = demo_store and key = "''foo''"
            and rt = demo_rt and load = "load_fails 500" and url = "''/foo''"
            and options = "demo_options False False False True"
            and err = "[(''status'', Num 500)]", OF a b c]
    by (simp add: field_def get_demo_foo demo_options_def)
qed

text \<open>
  Claim C5: when a stale value (present and expired) is at the key and
  \<open>staleWhileRevalidate\<close> is set, the promise is resolved when \<open>fetch\<close> returns,
  with \<open>{ duration: 0, headers: { status: 200 }, data: the stale value }\<close>, and the
  load has been started all the same.
\<close>

theorem fetch_stale_while_revalidate:
  assumes "truthy (get store key)"
      and "hasExpired rt (get store key) (EXPIRES_KEY store)"
      and "staleWhileRevalidate options"
  shows "returned (fetch rt load store key url options) =
           Resolved (Obj [(''duration'', Num 0),
                          (''headers'', Obj [(''status'', Num 200)]),
                          (''data'', get store key)])
         \<and> filter is_load (calls (fetch rt load store key url options)) =
             [Load key url options]"
  by (simp add: fetch_revalidating_run [OF assms] stored_response_def is_load_def)

theorem fetch_stale_while_revalidate_witness:
  "returned (fetch demo_rt (load_fails 500) demo_store ''foo'' ''/foo''
       (demo_options False True False False)) =
     Resolved (Obj [(''duration'', Num 0),
                    (''headers'', Obj [(''status'', Num 200)]),
                    (''data'', Obj [(''bar'', Str ''boo''), (''__expires'', Num 400)])])
   \<and> filter is_load (calls (fetch demo_rt (load_fails 500) demo_store ''foo'' ''/foo''
       (demo_options False True False False))) =
     [Load ''foo'' ''/foo'' (demo_options False True False False)]"
proof -
  have t: "truthy (get demo_store ''foo'')"
    by (simp add: get_demo_foo)
  have s: "staleWhileRevalidate (demo_options False True False False)"
    by (simp add: demo_options_def)
  show ?thesis
    using fetch_stale_while_revalidate [OF t hasExpired_demo_foo s, of "load_fails 500" "''/foo''"]
    by (simp add: get_demo_foo)
qed

text \<open>
  Claim C6, as the code has it: when the stored value is truthy and not expired (it has
  no expiry entry, or its expiry is in the future), \<open>fetch\<close> never calls \<open>load\<close>,
  neither before it returns nor later, and the promise resolves with
  \<open>{ duration: 0, headers: { status: 200 }, data: the stored value }\<close>. The test of
  line 28 is \<open>!value\<close>: a stored \<open>0\<close>, empty string, \<open>false\<close> or \<open>null\<close>
  counts as missing.
\<close>

theorem fetch_fresh_never_loads:
  assumes "truthy (get store key)"
      and "expiry (EXPIRES_KEY store) (get store key) = None
           \<or> (\<exists>e. expiry (EXPIRES_KEY store) (get store key) = Some (Num e) \<and> now rt < e)"
  shows "filter is_load (all_calls (fetch rt load store key url options)) = []
         \<and> returned (fetch rt load store key url options) =
             Resolved (Obj [(''duration'', Num 0),
                            (''headers'', Obj [(''status'', Num 200)]),
                            (''data'', get store key)])"
proof -
  have "\<not> hasExpired rt (get store key) (EXPIRES_KEY store)"
    using assms(2) by (auto simp add: hasExpired_no_expiry hasExpired_Num)
  with assms(1) show ?thesis
    by (simp add: fetch_fresh_run all_calls_def is_load_def stored_response_def)
qed

theorem fetch_fresh_never_loads_witness:
  "filter is_load (all_calls (fetch demo_rt (load_fails 500) demo_store ''boo'' ''/boo''
       (demo_options True False False False))) = []
   \<and> returned (fetch demo_rt (load_fails 500) demo_store ''boo'' ''/boo''
       (demo_options True False False False)) =
       Resolved (Obj [(''duration'', Num 0),
                      (''headers'', Obj [(''status'', Num 200)]),
                      (''data'', Obj [(''bar'', Str ''foo''), (''__expires'', Num 2000)])])"
proof -
  have t: "truthy (get demo_store ''boo'')"
    by (simp add: get_demo_boo)
  have f: "expiry (EXPIRES_KEY demo_store) (get demo_store ''boo'') = None
           \<or> (\<exists>e. expiry (EXPIRES_KEY demo_store) (get demo_store ''boo'') = Some (Num e)
                  \<and> now demo_rt < e)"
    by (simp add: get_demo_boo demo_expires_key demo_now)
  show ?thesis
    using fetch_fresh_never_loads [OF t f, of "load_fails 500" "''/boo''"
            "demo_options True False False False"]
    by (simp add: get_demo_boo)
qed

text \<open>
  Against claim C6 as stated (a value that is present and has no expiry entry is never
  loaded): the entry \<open>zero\<close> holds the number 0 and no expiry; \<open>fetch\<close> calls
  \<open>load\<close> and waits for it.
\<close>

theorem fetch_falsy_value_counterexample:
  "get falsy_store ''zero'' = Num 0
   \<and> expiry (EXPIRES_KEY falsy_store) (get falsy_store ''zero'') = None
   \<and> calls (fetch demo_rt (load_fails 500) falsy_store ''zero'' ''/zero''
        (demo_options False False False False)) =
       [Load ''zero'' ''/zero'' (demo_options False False False False)]
   \<and> returned (fetch demo_rt (load_fails 500) falsy_store ''zero'' ''/zero''
        (demo_options False False False False)) = Pending"
proof -
  have g: "get falsy_store ''zero'' = Num 0"
    by (simp add: falsy_store_def get_def segments_def field_def)
  have a: "\<not> truthy (get falsy_store ''zero'')
           \<or> hasExpired demo_rt (get falsy_store ''zero'') (EXPIRES_KEY falsy_store)"
    by (simp add: g)
  have b: "\<not> (truthy (get falsy_store ''zero'')
               \<and> staleWhileRevalidate (demo_options False False False False))"
    by (simp add: g)
  show ?thesis
    by (simp add: fetch_waiting_run [OF a b] g)
qed

text \<open>
  Claim C7, as the code has it: \<open>reload\<close> is called in a run exactly when
  \<open>options.reload\<close> is set and the stored value was fresh, or a stale value is served
  under \<open>staleWhileRevalidate\<close>, or the load succeeded, or the load failed with a
  status of at least 500. The second case is the last statement but one of \<open>fetch\<close>
  (line 62), which a stale value served at once reaches as a fresh one does, whatever
  becomes of the load.
\<close>

theorem fetch_schedules_reload_iff:
  "(filter is_reload (all_calls (fetch rt load store key url options)) \<noteq> []) =
     (reload options \<and>
      (if truthy (get store key) \<and> \<not> hasExpired rt (get store key) (EXPIRES_KEY store)
       then True
       else (truthy (get store key) \<and> staleWhileRevalidate options)
            \<or> (case load store key url options of
                  Fulfilled store' res \<Rightarrow> True
                | Failed err \<Rightarrow> ge_num rt (field err ''status'') 500
                | Never \<Rightarrow> False)))"
proof (cases "truthy (get store key) \<and> \<not> hasExpired rt (get store key) (EXPIRES_KEY store)")
  case True
  then show ?thesis
    by (simp add: fetch_fresh_run all_calls_def is_reload_def)
next
  case stale: False
  show ?thesis
  proof (cases "truthy (get store key) \<and> staleWhileRevalidate options")
    case True
    with stale show ?thesis
      by (simp add: fetch_revalidating_run all_calls_def is_reload_def promiseToLoad_reloads)
  next
    case False
    with stale have run: "fetch rt load store key url options =
           \<lparr>calls = [Load key url options],
            returned = Pending,
            settle_calls =
              fst (promiseToLoad rt (get store key) key url options (load store key url options)),
            settled =
              snd (promiseToLoad rt (get store key) key url options (load store key url options))\<rparr>"
      by (intro fetch_waiting_run) auto
    from stale False show ?thesis
      unfolding run
      by (auto simp add: all_calls_def is_reload_def promiseToLoad_reloads)
  qed
qed

theorem fetch_schedules_reload_iff_witness:
  "filter is_reload (all_calls (fetch demo_rt (load_fails 404) demo_store ''nope'' ''/nope''
       (demo_options True False False False))) = []
   \<and> filter is_reload (all_calls (fetch demo_rt (load_fails 503) demo_store ''nope'' ''/nope''
       (demo_options True False False False))) \<noteq> []"
  using fetch_schedules_reload_iff [of demo_rt "load_fails 404" demo_store "''nope''" "''/nope''"
          "demo_options True False False False"]
        fetch_schedules_reload_iff [of demo_rt "load_fails 503" demo_store "''nope''" "''/nope''"
          "demo_options True False False False"]
  by (simp add: get_demo_nope load_fails_def field_def ge_num_Num demo_options_def)

text \<open>
  Against claim C7 as stated (a failure with a status below 500 schedules no reload):
  the entry \<open>foo\<close> is stale, \<open>reload\<close> and \<open>staleWhileRevalidate\<close> are set and the
  load fails with status 404; \<open>reload\<close> is called all the same, before \<open>fetch\<close>
  returns.
\<close>

theorem fetch_reload_after_client_error_counterexample:
  "reload (demo_options True True False False)
   \<and> hasExpired demo_rt (get demo_store ''foo'') (EXPIRES_KEY demo_store)
   \<and> load_fails 404 demo_store ''foo'' ''/foo'' (demo_options True True False False)
       = Failed [(''status'', Num 404)]
   \<and> all_calls (fetch demo_rt (load_fails 404) demo_store ''foo'' ''/foo''
        (demo_options True True False False)) =
       [Load ''foo'' ''/foo'' (demo_options True True False False),
        Reload ''foo'' ''/foo'' (demo_options True True False False)]"
proof -
  have t: "truthy (get demo_store ''foo'')"
    by (simp add: get_demo_foo)
  have s: "staleWhileRevalidate (demo_options True True False False)"
    by (simp add: demo_options_def)
  show ?thesis
    by (simp add: fetch_revalidating_run [OF t hasExpired_demo_foo s] hasExpired_demo_foo
          all_calls_def load_fails_def promiseToLoad_Failed field_def ge_num_Num)
       (simp add: demo_options_def)
qed

text \<open>
  Claim C9: when a stale value is at the key and both \<open>staleWhileRevalidate\<close> and
  \<open>reload\<close> are set, \<open>reload\<close> is called for the key once before \<open>fetch\<close>
  returns and once more when the load settles, if it succeeds or fails with a status of
  at least 500: twice in all in those cases, once otherwise.
\<close>

theorem fetch_revalidate_reloads_twice:
  assumes "truthy (get store key)"
      and "hasExpired rt (get store key) (EXPIRES_KEY store)"
      and "staleWhileRevalidate options"
      and "reload options"
  shows "calls (fetch rt load store key url options) =
           [Load key url options, Reload key url options]
         \<and> settle_calls (fetch rt load store key url options) =
             (case load store key url options of
                Fulfilled store' res \<Rightarrow> [Reload key url options]
              | Failed err \<Rightarrow>
                  if ge_num rt (field err ''status'') 500 then [Reload key url options] else []
              | Never \<Rightarrow> [])
         \<and> length (filter is_reload (all_calls (fetch rt load store key url options))) =
             (case load store key url options of
                Fulfilled store' res \<Rightarrow> 2
              | Failed err \<Rightarrow> if ge_num rt (field err ''status'') 500 then 2 else 1
              | Never \<Rightarrow> 1)"
  using assms(4)
  by (cases "load store key url options")
     (simp_all add: fetch_revalidating_run [OF assms(1,2,3)] promiseToLoad_simps
        all_calls_def is_reload_def)

theorem fetch_revalidate_reloads_twice_witness:
  "length (filter is_reload (all_calls (fetch demo_rt load_succeeds demo_store ''foo'' ''/foo''
       (demo_options True True False False)))) = 2
   \<and> length (filter is_reload (all_calls (fetch demo_rt (load_fails 503) demo_store ''foo''
       ''/foo'' (demo_options True True False False)))) = 2
   \<and> length (filter is_reload (all_calls (fetch demo_rt (load_fails 404) demo_store ''foo''
       ''/foo'' (demo_options True True False False)))) = 1"
proof -
  have t: "truthy (get demo_store ''foo'')"
    by (simp add: get_demo_foo)
  have s: "staleWhileRevalidate (demo_options True True False False)"
    by (simp add: demo_options_def)
  have r: "reload (demo_options True True False False)"
    by (simp add: demo_options_def)
  show ?thesis
    using fetch_revalidate_reloads_twice [OF t hasExpired_demo_foo s r,
            of load_succeeds "''/foo''"]
          fetch_revalidate_reloads_twice [OF t hasExpired_demo_foo s r,
            of "load_fails 503" "''/foo''"]
          fetch_revalidate_reloads_twice [OF t hasExpired_demo_foo s r,
            of "load_fails 404" "''/foo''"]
    by (simp add: load_succeeds_def load_fails_def field_def ge_num_Num)
qed

text \<open>
  Claim C10: when no value is at the key (\<open>get\<close> gives \<open>undefined\<close>) and the load
  fails, the response the promise resolves with has \<open>data: undefined\<close> under
  \<open>staleIfError\<close> and \<open>data: null\<close> without it. This holds whatever
  \<open>rejectOnError\<close> is, so also when it is false.
\<close>

theorem fetch_missing_value_failed_load_data:
  assumes "get store key = Undefined"
      and "load store key url options = Failed err"
  shows "settled (fetch rt load store key url options) =
           Resolved (Obj [(''duration'', Num 0),
                          (''error'', Obj err),
                          (''headers'', Obj [(''status'', field err ''status'')]),
                          (''data'', if staleIfError options then Undefined else Null)])"
proof -
  have a: "\<not> truthy (get store key) \<or> hasExpired rt (get store key) (EXPIRES_KEY store)"
    by (simp add: assms(1))
  have b: "\<not> (truthy (get store key) \<and> staleWhileRevalidate options)"
    by (simp add: assms(1))
  show ?thesis
    by (simp add: fetch_waiting_run [OF a b] assms promiseToLoad_Failed)
qed

theorem fetch_missing_value_failed_load_data_witness:
  "settled (fetch demo_rt (load_fails 500) demo_store ''nope'' ''/nope''
       (demo_options False False True False)) =
     Resolved (Obj [(''duration'', Num 0),
                    (''error'', Obj [(''status'', Num 500)]),
                    (''headers'', Obj [(''status'', Num 500)]),
                    (''data'', Undefined)])
   \<and> settled (fetch demo_rt (load_fails 500) demo_store ''nope'' ''/nope''
       (demo_options False False False False)) =
     Resolved (Obj [(''duration'', Num 0),
                    (''error'', Obj [(''status'', Num 500)]),
                    (''headers'', Obj [(''status'', Num 500)]),
                    (''data'', Null)])"
proof -
  have c: "load_fails 500 demo_store ''nope'' ''/nope'' opts = Failed [(''status'', Num 500)]"
    for opts
    by (simp add: load_fails_def)
  show ?thesis
    using fetch_missing_value_failed_load_data [where store = demo_store and key = "''nope''"
            and load = "load_fails 500" and url = "''/nope''" and rt = demo_rt
            and options = "demo_options False False True False", OF get_demo_nope c]
          fetch_missing_value_failed_load_data [where store = demo_store and key = "''nope''"
            and load = "load_fails 500" and url = "''/nope''" and rt = demo_rt
            and options = "demo_options False False False False", OF get_demo_nope c]
    by (simp add: field_def demo_options_def)
qed

end
